theory Spec2Isabelle
  imports Complex_Main
begin

section \<open>Configuration constants (config/GameConstants)\<close>

text \<open>
  JavaScript numbers are modelled as \<^typ>\<open>real\<close>: positions, velocities and texture
  offsets are exact reals here, so rounding of IEEE doubles is outside this development.
  Only the constants that the modelled functions read are declared.
\<close>

definition GROUND_OFFSET_FROM_BOTTOM :: real where "GROUND_OFFSET_FROM_BOTTOM = 100"

definition STARTING_X :: real where "STARTING_X = 300"
definition STARTING_Y :: real where "STARTING_Y = 800"
definition WALK_SPEED :: real where "WALK_SPEED = 200"
definition RUN_SPEED :: real where "RUN_SPEED = 300"
definition JUMP_VELOCITY :: real where "JUMP_VELOCITY = - 500"

definition OOZE_X_POSITION :: real where "OOZE_X_POSITION = 1200"
definition OOZE_Y_OFFSET :: real where "OOZE_Y_OFFSET = 50"
definition OOZE_INTERACTION_DISTANCE :: real where "OOZE_INTERACTION_DISTANCE = 100"

definition BACK_SKY :: real where "BACK_SKY = 1 / 10"
definition SKY_GLOW :: real where "SKY_GLOW = 1 / 10"
definition CLOUDS :: real where "CLOUDS = 1 / 10"
definition MIDGROUND_ROCKS :: real where "MIDGROUND_ROCKS = 2 / 10"
definition FOREGROUND_ROCKS :: real where "FOREGROUND_ROCKS = 3 / 10"
definition GROUND_LAYER :: real where "GROUND_LAYER = 1"

definition JUMP_DUST_Y_OFFSET :: real where "JUMP_DUST_Y_OFFSET = 30"

text \<open>The canvas height of the game configuration in main.ts (\<open>height: 1080\<close>).\<close>

definition SCALE_HEIGHT :: real where "SCALE_HEIGHT = 1080"


section \<open>Input Manager\<close>

text \<open>
  The keyboard is the engine's: a value of \<open>keys\<close> is the snapshot that the engine's key
  objects hold during one frame. \<open>shift_isDown\<close> stands for what
  \<open>keyboard.checkDown(shiftKey, 0)\<close> reports and \<open>interact_justDown\<close> for what
  \<open>Phaser.Input.Keyboard.JustDown(interactKey)\<close> reports when it is polled in that frame.
\<close>

record keys =
  left_isDown :: bool
  right_isDown :: bool
  up_isDown :: bool
  space_isDown :: bool
  shift_isDown :: bool
  interact_justDown :: bool

definition isMovingLeft :: "keys \<Rightarrow> bool" where
  "isMovingLeft k = left_isDown k"

definition isMovingRight :: "keys \<Rightarrow> bool" where
  "isMovingRight k = right_isDown k"

definition isJumping :: "keys \<Rightarrow> bool" where
  "isJumping k = (up_isDown k \<or> space_isDown k)"

definition isRunning :: "keys \<Rightarrow> bool" where
  "isRunning k = shift_isDown k"

definition getHorizontalDirection :: "keys \<Rightarrow> int" where
  "getHorizontalDirection k =
     (if isMovingLeft k then - 1
      else if isMovingRight k then 1
      else 0)"

definition isInteractPressed :: "keys \<Rightarrow> bool" where
  "isInteractPressed k = interact_justDown k"

text \<open>A keyboard with nothing held, used to build concrete frames.\<close>

definition no_keys :: keys where
  "no_keys = \<lparr>left_isDown = False, right_isDown = False, up_isDown = False,
     space_isDown = False, shift_isDown = False, interact_justDown = False\<rparr>"


section \<open>Player\<close>

datatype anim_key = Idle | Run | Jump

text \<open>
  The player object with the fields of its physics sprite that the class reads or writes.
  \<open>touching_down\<close> is \<open>sprite.body.touching.down\<close>, written by the physics engine;
  \<open>dust\<close> lists the positions of the jump-dust sprites that were spawned.
\<close>

record player =
  canMove :: bool
  sprite_x :: real
  sprite_y :: real
  velocityX :: real
  velocityY :: real
  flipX :: bool
  touching_down :: bool
  current_anim :: "anim_key option"
  dust :: "(real \<times> real) list"

text \<open>
  \<open>createPlayer\<close>: the sprite starts at the configured position, at rest. The idle
  animation is started by a delayed call 50 ms later, which is not part of this model.
\<close>

definition createPlayer :: player where
  "createPlayer = \<lparr>canMove = True, sprite_x = STARTING_X, sprite_y = STARTING_Y,
     velocityX = 0, velocityY = 0, flipX = False, touching_down = False,
     current_anim = None, dust = []\<rparr>"

definition setVelocityX :: "real \<Rightarrow> player \<Rightarrow> player" where
  "setVelocityX v p = p\<lparr>velocityX := v\<rparr>"

definition setVelocityY :: "real \<Rightarrow> player \<Rightarrow> player" where
  "setVelocityY v p = p\<lparr>velocityY := v\<rparr>"

definition setFlipX :: "bool \<Rightarrow> player \<Rightarrow> player" where
  "setFlipX b p = p\<lparr>flipX := b\<rparr>"

definition anims_play :: "anim_key \<Rightarrow> player \<Rightarrow> player" where
  "anims_play a p = p\<lparr>current_anim := Some a\<rparr>"

definition playJumpDustEffect :: "player \<Rightarrow> player" where
  "playJumpDustEffect p = p\<lparr>dust := dust p @ [(sprite_x p, sprite_y p + JUMP_DUST_Y_OFFSET)]\<rparr>"

definition jump :: "player \<Rightarrow> player" where
  "jump p = playJumpDustEffect (anims_play Jump (setVelocityY JUMP_VELOCITY p))"

definition handleMovement :: "keys \<Rightarrow> player \<Rightarrow> player" where
  "handleMovement k p =
     (if \<not> canMove p then setVelocityX 0 p
      else
        let isOnGround = touching_down p;
            direction = getHorizontalDirection k;
            speed = (if isRunning k then RUN_SPEED else WALK_SPEED);
            p1 = (if direction \<noteq> 0 then
                    let q = setFlipX (direction < 0) (setVelocityX (of_int direction * speed) p)
                    in if isOnGround then anims_play Run q else q
                  else
                    let q = setVelocityX 0 p
                    in if isOnGround then anims_play Idle q else q)
        in if isJumping k \<and> isOnGround then jump p1 else p1)"

text \<open>\<open>Math.round\<close> rounds to the nearest integer, halves upwards.\<close>

definition math_round :: "real \<Rightarrow> real" where
  "math_round r = of_int \<lfloor>r + 1 / 2\<rfloor>"

definition preventPixelBlur :: "player \<Rightarrow> player" where
  "preventPixelBlur p = p\<lparr>sprite_x := math_round (sprite_x p), sprite_y := math_round (sprite_y p)\<rparr>"

definition Player_update :: "keys \<Rightarrow> player \<Rightarrow> player" where
  "Player_update k p = preventPixelBlur (handleMovement k p)"

definition getPosition :: "player \<Rightarrow> real \<times> real" where
  "getPosition p = (sprite_x p, sprite_y p)"

definition enableMovement :: "player \<Rightarrow> player" where
  "enableMovement p = p\<lparr>canMove := True\<rparr>"

definition disableMovement :: "player \<Rightarrow> player" where
  "disableMovement p = setVelocityX 0 (p\<lparr>canMove := False\<rparr>)"

definition canPlayerMove :: "player \<Rightarrow> bool" where
  "canPlayerMove p = canMove p"


section \<open>Background Manager\<close>

text \<open>
  The \<open>tilePositionX\<close> of each tiling layer. The planet is a plain image that is never
  moved and has no offset.
\<close>

record background =
  backSky :: real
  skyGlow :: real
  clouds :: real
  midgroundRocks :: real
  foregroundRocks :: real
  groundLayer :: real

definition createBackground :: background where
  "createBackground = \<lparr>backSky = 0, skyGlow = 0, clouds = 0, midgroundRocks = 0,
     foregroundRocks = 0, groundLayer = 0\<rparr>"

definition updateParallax :: "real \<Rightarrow> background \<Rightarrow> background" where
  "updateParallax cameraScrollX bg =
     bg\<lparr>backSky := backSky bg + BACK_SKY,
        skyGlow := cameraScrollX * SKY_GLOW,
        clouds := cameraScrollX * CLOUDS,
        midgroundRocks := cameraScrollX * MIDGROUND_ROCKS,
        foregroundRocks := cameraScrollX * FOREGROUND_ROCKS,
        groundLayer := cameraScrollX * GROUND_LAYER\<rparr>"


section \<open>Quest Board (the panel)\<close>

text \<open>
  A tween that the panel hands to the scene's tween manager: the values it drives the
  container to, its duration in milliseconds and its completion handler. The only
  completion handler in the source is the closure of \<open>hideQuestBoard\<close>, which hides the
  container and clears \<open>isVisible\<close>.
\<close>

datatype tween_callback = HideComplete

record tween =
  to_alpha :: real
  to_scaleX :: real
  to_scaleY :: real
  duration :: nat
  onComplete :: "tween_callback option"

text \<open>
  The panel: its container (visibility, alpha, scale), the \<open>isVisible\<close> flag, the stored
  close-callback (of any type \<open>'cb\<close>) and the tweens that target its container and have
  not completed. The static texts, images and the hover handlers of the button are left
  out: no operation below reads them.
\<close>

record 'cb questboard =
  container_visible :: bool
  container_alpha :: real
  container_scaleX :: real
  container_scaleY :: real
  isVisible :: bool
  onCloseCallback :: "'cb option"
  tweens :: "tween list"

text \<open>The constructor (\<open>createQuestBoard\<close>): the container is created and hidden.\<close>

definition new_QuestBoard :: "'cb questboard" where
  "new_QuestBoard = \<lparr>container_visible = False, container_alpha = 1, container_scaleX = 1,
     container_scaleY = 1, isVisible = False, onCloseCallback = None, tweens = []\<rparr>"

definition fade_in_tween :: tween where
  "fade_in_tween = \<lparr>to_alpha = 1, to_scaleX = 1, to_scaleY = 1, duration = 400,
     onComplete = None\<rparr>"

definition fade_out_tween :: tween where
  "fade_out_tween = \<lparr>to_alpha = 0, to_scaleX = 8 / 10, to_scaleY = 8 / 10, duration = 300,
     onComplete = Some HideComplete\<rparr>"

definition showQuestBoard :: "'cb option \<Rightarrow> 'cb questboard \<Rightarrow> 'cb questboard" where
  "showQuestBoard cb qb =
     (if \<not> isVisible qb then
        qb\<lparr>onCloseCallback := cb,
           container_visible := True,
           isVisible := True,
           container_alpha := 0,
           container_scaleX := 8 / 10,
           container_scaleY := 8 / 10,
           tweens := tweens qb @ [fade_in_tween]\<rparr>
      else qb)"

definition hideQuestBoard :: "'cb questboard \<Rightarrow> 'cb questboard" where
  "hideQuestBoard qb =
     (if isVisible qb then qb\<lparr>tweens := tweens qb @ [fade_out_tween]\<rparr> else qb)"

text \<open>
  The \<open>pointerdown\<close> handler of the OK button: it calls \<open>hideQuestBoard\<close> and then, if a
  callback is stored, calls it. The result is the panel and the callbacks that the handler
  invoked, in order.
\<close>

definition okButton_pointerdown :: "'cb questboard \<Rightarrow> 'cb questboard \<times> 'cb list" where
  "okButton_pointerdown qb =
     (let qb' = hideQuestBoard qb
      in (qb', case onCloseCallback qb' of Some cb \<Rightarrow> [cb] | None \<Rightarrow> []))"

definition isQuestBoardVisible :: "'cb questboard \<Rightarrow> bool" where
  "isQuestBoardVisible qb = isVisible qb"

text \<open>
  The tween manager is the engine's, and so is the moment at which a tween completes: how
  the engine counts the duration is not modelled. A step of the tween manager on a panel
  is given by \<open>completed\<close>, the positions in the panel's list of pending tweens of the
  tweens that complete in that step. A completed tween leaves its target at the final
  values, runs its completion handler once and is removed; completed tweens are handled in
  the order in which they were added; the others stay pending. The eased values in between
  are not modelled.
\<close>

definition run_tween_callback :: "tween_callback \<Rightarrow> 'cb questboard \<Rightarrow> 'cb questboard" where
  "run_tween_callback c qb =
     (case c of HideComplete \<Rightarrow> qb\<lparr>container_visible := False, isVisible := False\<rparr>)"

definition complete_tween :: "tween \<Rightarrow> 'cb questboard \<Rightarrow> 'cb questboard" where
  "complete_tween t qb =
     (let qb1 = qb\<lparr>container_alpha := to_alpha t, container_scaleX := to_scaleX t,
                    container_scaleY := to_scaleY t\<rparr>
      in case onComplete t of None \<Rightarrow> qb1 | Some c \<Rightarrow> run_tween_callback c qb1)"

definition tweens_update :: "nat list \<Rightarrow> 'cb questboard \<Rightarrow> 'cb questboard" where
  "tweens_update completed qb =
     fold complete_tween (nths (tweens qb) (set completed))
       (qb\<lparr>tweens := nths (tweens qb) (- set completed)\<rparr>)"

text \<open>A close transition is in progress: a fade-out tween has not completed yet.\<close>

definition fading_out :: "'cb questboard \<Rightarrow> bool" where
  "fading_out qb = list_ex (\<lambda>t. onComplete t = Some HideComplete) (tweens qb)"


section \<open>Obstacles\<close>

text \<open>
  An image or text object of the engine, with its \<open>visible\<close> property (true when the
  object is created).
\<close>

datatype game_object = GameObject (visible: bool)

definition setVisible :: "bool \<Rightarrow> game_object \<Rightarrow> game_object" where
  "setVisible v obj = GameObject v"

text \<open>
  The calls of \<open>showChatBubble\<close> and \<open>hideChatBubble\<close> are logged in the field
  \<open>bubble_calls\<close>, which no operation reads: it is there to count the calls.
\<close>

datatype bubble_call = ShowChatBubble | HideChatBubble

text \<open>
  The Ooze obstacle with the fields of its base class. \<open>questBoard\<close> is a reference: the
  index of a panel in the list of panels that were constructed in the scene, or \<open>None\<close> for
  \<open>null\<close>. The obstacle's \<open>player\<close> field refers to the scene's player, so the methods
  that use it are defined on the scene below.
\<close>

record ooze =
  ooze_sprite_x :: real
  ooze_sprite_y :: real
  interactionDistance :: real
  chatBubbleImage :: "game_object option"
  chatBubbleText :: "game_object option"
  chatBubbleVisible :: bool
  questBoard :: "nat option"
  bubble_calls :: "bubble_call list"

text \<open>\<open>Phaser.Math.Distance.Between\<close>: the square root of \<open>dx * dx + dy * dy\<close>.\<close>

definition Distance_Between :: "real \<Rightarrow> real \<Rightarrow> real \<Rightarrow> real \<Rightarrow> real" where
  "Distance_Between x1 y1 x2 y2 =
     (let dx = x1 - x2; dy = y1 - y2 in sqrt (dx * dx + dy * dy))"

definition isPlayerNearby :: "real \<times> real \<Rightarrow> ooze \<Rightarrow> bool" where
  "isPlayerNearby playerPosition ob =
     (let distance = Distance_Between (fst playerPosition) (snd playerPosition)
                       (ooze_sprite_x ob) (ooze_sprite_y ob)
      in distance < interactionDistance ob)"

definition ooze_getPosition :: "ooze \<Rightarrow> real \<times> real" where
  "ooze_getPosition ob = (ooze_sprite_x ob, ooze_sprite_y ob)"

definition showChatBubble :: "ooze \<Rightarrow> ooze" where
  "showChatBubble ob0 =
     (let ob = ob0\<lparr>bubble_calls := bubble_calls ob0 @ [ShowChatBubble]\<rparr>
      in if \<not> chatBubbleVisible ob \<and> chatBubbleImage ob \<noteq> None \<and> chatBubbleText ob \<noteq> None
         then ob\<lparr>chatBubbleImage := map_option (setVisible True) (chatBubbleImage ob),
                 chatBubbleText := map_option (setVisible True) (chatBubbleText ob),
                 chatBubbleVisible := True\<rparr>
         else ob)"

definition hideChatBubble :: "ooze \<Rightarrow> ooze" where
  "hideChatBubble ob0 =
     (let ob = ob0\<lparr>bubble_calls := bubble_calls ob0 @ [HideChatBubble]\<rparr>
      in if chatBubbleVisible ob \<and> chatBubbleImage ob \<noteq> None \<and> chatBubbleText ob \<noteq> None
         then ob\<lparr>chatBubbleImage := map_option (setVisible False) (chatBubbleImage ob),
                 chatBubbleText := map_option (setVisible False) (chatBubbleText ob),
                 chatBubbleVisible := False\<rparr>
         else ob)"

definition createChatBubble :: "ooze \<Rightarrow> ooze" where
  "createChatBubble ob =
     hideChatBubble (ob\<lparr>chatBubbleImage := Some (GameObject True),
                         chatBubbleText := Some (GameObject True)\<rparr>)"

text \<open>
  \<open>initializeQuestBoard\<close> works on the obstacle and on the panels of the scene: a new panel
  is put at the end of the list and the obstacle's field is set to its index.
\<close>

definition initializeQuestBoard ::
  "ooze \<times> 'cb questboard list \<Rightarrow> ooze \<times> 'cb questboard list" where
  "initializeQuestBoard s =
     (case s of (ob, ps) \<Rightarrow>
        if questBoard ob = None
        then (ob\<lparr>questBoard := Some (length ps)\<rparr>, ps @ [new_QuestBoard])
        else (ob, ps))"

definition setupObstacle ::
  "ooze \<times> 'cb questboard list \<Rightarrow> ooze \<times> 'cb questboard list" where
  "setupObstacle s =
     (case s of (ob, ps) \<Rightarrow> initializeQuestBoard (createChatBubble ob, ps))"

text \<open>
  The constructor of the base class stores the interaction distance, creates the sprite
  and calls \<open>setupObstacle\<close> of the subclass. At that moment the fields declared by
  \<open>OozeObstacle\<close> have no value yet: \<open>undefined\<close> is read as false for
  \<open>chatBubbleVisible\<close> and as no object for the others.
\<close>

definition BaseObstacle_constructor ::
  "real \<Rightarrow> real \<Rightarrow> real \<Rightarrow> 'cb questboard list \<Rightarrow> ooze \<times> 'cb questboard list" where
  "BaseObstacle_constructor px py d ps =
     setupObstacle
       (\<lparr>ooze_sprite_x = px, ooze_sprite_y = py, interactionDistance = d,
          chatBubbleImage = None, chatBubbleText = None, chatBubbleVisible = False,
          questBoard = None, bubble_calls = []\<rparr>, ps)"

text \<open>
  The constructor of \<open>OozeObstacle\<close>. The initialisers of the fields that the class
  declares with a value (\<open>chatBubbleVisible = false\<close>, \<open>questBoard = null\<close>) run when
  \<open>super(...)\<close> has returned, that is after \<open>setupObstacle\<close>, and overwrite what it
  stored in these two fields. The fields declared without a value
  (\<open>chatBubbleImage\<close>, \<open>chatBubbleText\<close>) are type declarations only and keep what
  \<open>setupObstacle\<close> stored.
\<close>

definition new_OozeObstacle :: "'cb questboard list \<Rightarrow> ooze \<times> 'cb questboard list" where
  "new_OozeObstacle ps =
     (let groundY = SCALE_HEIGHT - GROUND_OFFSET_FROM_BOTTOM;
          oozeY = groundY - OOZE_Y_OFFSET
      in case BaseObstacle_constructor OOZE_X_POSITION oozeY OOZE_INTERACTION_DISTANCE ps of
           (ob, ps') \<Rightarrow> (ob\<lparr>chatBubbleVisible := False, questBoard := None\<rparr>, ps'))"


section \<open>The game scene\<close>

text \<open>
  The closure that \<open>onPlayerInteract\<close> passes to the panel re-enables the movement of the
  player (and writes a line to the console).
\<close>

datatype close_callback = ReenablePlayerMovement

definition run_callback :: "close_callback \<Rightarrow> player \<Rightarrow> player" where
  "run_callback cb p = (case cb of ReenablePlayerMovement \<Rightarrow> enableMovement p)"

text \<open>
  The scene: its systems, the tracked proximity flag, and \<open>panels\<close>, the panels that were
  constructed in it, in the order of their construction.
\<close>

record game =
  player :: player
  backgroundManager :: background
  oozeObstacle :: ooze
  isPlayerNearOoze :: bool
  panels :: "close_callback questboard list"

text \<open>
  Applying a method to the panel that a reference points to. A reference of the obstacle
  always points into the list (\<open>panels_wf\<close> below), so the other branch is never taken
  in a run.
\<close>

definition at_panel ::
  "nat \<Rightarrow> ('cb questboard \<Rightarrow> 'cb questboard) \<Rightarrow> 'cb questboard list \<Rightarrow> 'cb questboard list" where
  "at_panel a f ps = (if a < length ps then ps[a := f (ps ! a)] else ps)"

definition onPlayerInteract :: "game \<Rightarrow> game" where
  "onPlayerInteract g =
     (let ob1 = hideChatBubble (oozeObstacle g);
          p1 = disableMovement (player g)
      in case initializeQuestBoard (ob1, panels g) of
           (ob2, ps2) \<Rightarrow>
             g\<lparr>player := p1,
                oozeObstacle := ob2,
                panels := (case questBoard ob2 of
                             Some a \<Rightarrow> at_panel a (showQuestBoard (Some ReenablePlayerMovement)) ps2
                           | None \<Rightarrow> ps2)\<rparr>)"

text \<open>
  \<open>create\<close>: the systems and the elements, in the order of the source. The field
  \<open>oozeObstacle\<close> is assigned here, before the first frame, so the guard on it at the head
  of \<open>checkObstacleInteractions\<close> never returns.
\<close>

definition create :: game where
  "create =
     (case new_OozeObstacle [] of
        (ob, ps) \<Rightarrow>
          \<lparr>player = createPlayer, backgroundManager = createBackground, oozeObstacle = ob,
           isPlayerNearOoze = False, panels = ps\<rparr>)"

definition checkObstacleInteractions :: "keys \<Rightarrow> game \<Rightarrow> game" where
  "checkObstacleInteractions k g =
     (let playerPosition = getPosition (player g);
          isNearOoze = isPlayerNearby playerPosition (oozeObstacle g);
          g1 = (if isNearOoze \<noteq> isPlayerNearOoze g then
                  g\<lparr>isPlayerNearOoze := isNearOoze,
                     oozeObstacle := (if isNearOoze then showChatBubble (oozeObstacle g)
                                      else hideChatBubble (oozeObstacle g))\<rparr>
                else g)
      in if isNearOoze \<and> isInteractPressed k then onPlayerInteract g1 else g1)"

text \<open>
  One frame: \<open>Game.update\<close> with the keyboard of the frame and the camera scroll. The
  \<open>update\<close> of the obstacle has an empty body.
\<close>

definition update :: "keys \<Rightarrow> real \<Rightarrow> game \<Rightarrow> game" where
  "update k cameraScrollX g =
     checkObstacleInteractions k
       (g\<lparr>backgroundManager := updateParallax cameraScrollX (backgroundManager g),
          player := Player_update k (player g)\<rparr>)"

text \<open>
  What happens to a running scene:
  \<^item> \<open>Update\<close>: the engine calls \<open>Game.update\<close>;
  \<^item> \<open>PhysicsStep\<close>: the physics engine writes position, velocity and ground contact of
    the player's sprite (any values: the engine is not modelled);
  \<^item> \<open>PointerDownOK a\<close>: the OK button of panel \<open>a\<close> is pressed; the callbacks that the
    handler invokes run on the player;
  \<^item> \<open>TweensUpdate a completed\<close>: a step of the tween manager in which the pending
    tweens of panel \<open>a\<close> at the positions \<open>completed\<close> complete.
\<close>

datatype event =
    Update keys real
  | PhysicsStep real real real real bool
  | PointerDownOK nat
  | TweensUpdate nat "nat list"

definition physics_step :: "real \<Rightarrow> real \<Rightarrow> real \<Rightarrow> real \<Rightarrow> bool \<Rightarrow> player \<Rightarrow> player" where
  "physics_step px py vx vy td p =
     p\<lparr>sprite_x := px, sprite_y := py, velocityX := vx, velocityY := vy, touching_down := td\<rparr>"

definition pointerdown_ok :: "nat \<Rightarrow> game \<Rightarrow> game" where
  "pointerdown_ok a g =
     (if a < length (panels g) then
        case okButton_pointerdown (panels g ! a) of
          (qb, invoked) \<Rightarrow>
            g\<lparr>panels := (panels g)[a := qb], player := fold run_callback invoked (player g)\<rparr>
      else g)"

fun step :: "event \<Rightarrow> game \<Rightarrow> game" where
  "step (Update k cam) g = update k cam g"
| "step (PhysicsStep px py vx vy td) g = g\<lparr>player := physics_step px py vx vy td (player g)\<rparr>"
| "step (PointerDownOK a) g = pointerdown_ok a g"
| "step (TweensUpdate a completed) g =
     g\<lparr>panels := at_panel a (tweens_update completed) (panels g)\<rparr>"

definition run :: "event list \<Rightarrow> game \<Rightarrow> game" where
  "run es g = fold step es g"


section \<open>Notions used to state the properties\<close>

text \<open>
  The distance of the specification: the planar Euclidean distance between two points.
\<close>

definition planar_euclidean_distance :: "real \<times> real \<Rightarrow> real \<times> real \<Rightarrow> real" where
  "planar_euclidean_distance p q = sqrt ((fst p - fst q)\<^sup>2 + (snd p - snd q)\<^sup>2)"


text \<open>
  Three invariants of the running scene.
  \<^item> \<open>panels_wf\<close>: the scene holds one or two panels. Panel 0 is the one that the
    constructor of the obstacle built and lost; it is never shown and stores no callback.
    The obstacle refers to no panel or to panel 1.
  \<^item> \<open>bubble_wf\<close>: the objects of the chat bubble exist, and the bubble's flag is only set
    while the tracked proximity flag is set.
  \<^item> \<open>moves_only_when_closing\<close>: if a panel is open while the player may move, the
    panel is fading out.
\<close>

definition panels_wf :: "game \<Rightarrow> bool" where
  "panels_wf g =
     ((questBoard (oozeObstacle g) = None \<and> length (panels g) = 1
       \<or> questBoard (oozeObstacle g) = Some 1 \<and> length (panels g) = 2)
      \<and> \<not> isVisible (panels g ! 0) \<and> onCloseCallback (panels g ! 0) = None)"

definition bubble_wf :: "game \<Rightarrow> bool" where
  "bubble_wf g =
     (chatBubbleImage (oozeObstacle g) \<noteq> None \<and> chatBubbleText (oozeObstacle g) \<noteq> None
      \<and> (chatBubbleVisible (oozeObstacle g) \<longrightarrow> isPlayerNearOoze g))"

definition moves_only_when_closing :: "game \<Rightarrow> bool" where
  "moves_only_when_closing g =
     (\<forall>qb\<in>set (panels g). isVisible qb \<and> canMove (player g) \<longrightarrow> fading_out qb)"

definition scene_inv :: "game \<Rightarrow> bool" where
  "scene_inv g = (panels_wf g \<and> bubble_wf g \<and> moves_only_when_closing g)"

text \<open>
  Concrete inputs. The obstacle stands at (1200, 930) with radius 100. \<open>walk_to_ooze\<close>
  puts the player on the ground 50 units left of it, \<open>stand_at_radius\<close> exactly 100 units
  left of it. The traces: the player arrives and a frame passes; then the interact key is
  pressed; then the OK button of the panel is pressed.
\<close>

definition grounded_player :: player where
  "grounded_player = createPlayer\<lparr>touching_down := True\<rparr>"

definition jump_keys :: keys where
  "jump_keys = no_keys\<lparr>space_isDown := True\<rparr>"

definition interact_keys :: keys where
  "interact_keys = no_keys\<lparr>interact_justDown := True\<rparr>"

definition walk_to_ooze :: event where
  "walk_to_ooze = PhysicsStep 1150 930 0 0 True"

definition stand_at_radius :: event where
  "stand_at_radius = PhysicsStep 1100 930 0 0 True"

definition approach_trace :: "event list" where
  "approach_trace = [walk_to_ooze, Update no_keys 0]"

definition opening_trace :: "event list" where
  "opening_trace = [walk_to_ooze, Update no_keys 0, Update interact_keys 0]"

definition closing_trace :: "event list" where
  "closing_trace = [walk_to_ooze, Update no_keys 0, Update interact_keys 0, PointerDownOK 1]"

definition opened_panel :: "close_callback questboard" where
  "opened_panel = showQuestBoard (Some ReenablePlayerMovement) new_QuestBoard"


section \<open>Unfolding rules and evaluation\<close>

lemmas config_defs =
  GROUND_OFFSET_FROM_BOTTOM_def STARTING_X_def STARTING_Y_def WALK_SPEED_def RUN_SPEED_def
  JUMP_VELOCITY_def OOZE_X_POSITION_def OOZE_Y_OFFSET_def OOZE_INTERACTION_DISTANCE_def
  BACK_SKY_def SKY_GLOW_def CLOUDS_def MIDGROUND_ROCKS_def FOREGROUND_ROCKS_def
  GROUND_LAYER_def JUMP_DUST_Y_OFFSET_def SCALE_HEIGHT_def

lemmas player_defs =
  setVelocityX_def setVelocityY_def setFlipX_def anims_play_def playJumpDustEffect_def
  jump_def handleMovement_def preventPixelBlur_def Player_update_def getPosition_def
  enableMovement_def disableMovement_def canPlayerMove_def

lemmas input_defs =
  isMovingLeft_def isMovingRight_def isJumping_def isRunning_def
  getHorizontalDirection_def isInteractPressed_def

lemmas panel_defs =
  new_QuestBoard_def fade_in_tween_def fade_out_tween_def showQuestBoard_def
  hideQuestBoard_def okButton_pointerdown_def isQuestBoardVisible_def
  run_tween_callback_def complete_tween_def tweens_update_def fading_out_def

lemmas obstacle_defs =
  setVisible_def Distance_Between_def isPlayerNearby_def ooze_getPosition_def
  showChatBubble_def hideChatBubble_def createChatBubble_def initializeQuestBoard_def
  setupObstacle_def BaseObstacle_constructor_def new_OozeObstacle_def

lemmas game_defs =
  run_callback_def at_panel_def onPlayerInteract_def create_def
  checkObstacleInteractions_def update_def physics_step_def pointerdown_ok_def run_def

text \<open>
  Comparing a square root with a non-negative bound, so that concrete distances are
  decided on the squares.
\<close>

lemma sqrt_less_iff_squares:
  "0 \<le> r \<Longrightarrow> (sqrt (a * a + b * b) < r) = (a * a + b * b < r * r)"
  by (metis abs_of_nonneg power2_eq_square real_sqrt_abs real_sqrt_less_iff)

lemmas eval_defs =
  game_defs obstacle_defs panel_defs config_defs player_defs input_defs
  createPlayer_def createBackground_def updateParallax_def no_keys_def math_round_def
  sqrt_less_iff_squares Let_def


section \<open>The tweens of a panel\<close>

lemma complete_tween_fields:
  "tweens (complete_tween t qb) = tweens qb"
  "onCloseCallback (complete_tween t qb) = onCloseCallback qb"
  "isVisible (complete_tween t qb) = (isVisible qb \<and> onComplete t \<noteq> Some HideComplete)"
  by (cases "onComplete t";
      simp add: complete_tween_def run_tween_callback_def Let_def split: tween_callback.splits;
      fail)+

lemma fold_complete_tween_fields:
  "tweens (fold complete_tween ts qb) = tweens qb"
  "onCloseCallback (fold complete_tween ts qb) = onCloseCallback qb"
  "isVisible (fold complete_tween ts qb) =
     (isVisible qb \<and> (\<forall>t\<in>set ts. onComplete t \<noteq> Some HideComplete))"
  by (induction ts arbitrary: qb; auto simp: complete_tween_fields)+

lemma tweens_update_fields:
  "tweens (tweens_update completed qb) = nths (tweens qb) (- set completed)"
  "onCloseCallback (tweens_update completed qb) = onCloseCallback qb"
  "isVisible (tweens_update completed qb) =
     (isVisible qb
      \<and> (\<forall>i\<in>set completed. i < length (tweens qb) \<longrightarrow>
             onComplete (tweens qb ! i) \<noteq> Some HideComplete))"
  by (auto simp: tweens_update_def fold_complete_tween_fields set_nths)

lemma fading_out_iff: "fading_out qb = (\<exists>t\<in>set (tweens qb). onComplete t = Some HideComplete)"
  by (simp add: fading_out_def list_ex_iff)

lemma tweens_update_keeps_fading:
  assumes "isVisible (tweens_update completed qb)" "fading_out qb"
  shows "fading_out (tweens_update completed qb)"
proof -
  from assms(2) obtain i where i: "i < length (tweens qb)"
      "onComplete (tweens qb ! i) = Some HideComplete"
    by (auto simp: fading_out_iff in_set_conv_nth)
  with assms(1) have "i \<notin> set completed"
    by (auto simp: tweens_update_fields)
  with i have "tweens qb ! i \<in> set (nths (tweens qb) (- set completed))"
    by (auto simp: set_nths)
  with i show ?thesis
    by (auto simp: fading_out_iff tweens_update_fields)
qed

lemma fading_out_hideQuestBoard:
  "isVisible (hideQuestBoard qb) = isVisible qb"
  "isVisible qb \<Longrightarrow> fading_out (hideQuestBoard qb)"
  "onCloseCallback (hideQuestBoard qb) = onCloseCallback qb"
  by (simp_all add: hideQuestBoard_def fading_out_iff fade_out_tween_def)


lemma okButton_pointerdown_fields:
  "snd (okButton_pointerdown qb) = (case onCloseCallback qb of Some cb \<Rightarrow> [cb] | None \<Rightarrow> [])"
  "fst (okButton_pointerdown qb) = hideQuestBoard qb"
  by (simp_all add: okButton_pointerdown_def Let_def fading_out_hideQuestBoard)

lemma tweens_hideQuestBoard:
  "isVisible qb \<Longrightarrow> tweens (hideQuestBoard qb) = tweens qb @ [fade_out_tween]"
  by (simp add: hideQuestBoard_def)

lemma opened_panel_fields:
  "isVisible opened_panel"
  "onCloseCallback opened_panel = Some ReenablePlayerMovement"
  "tweens opened_panel = [fade_in_tween]"
  by (simp_all add: opened_panel_def showQuestBoard_def new_QuestBoard_def)


section \<open>What the operations of the scene change\<close>

lemma canMove_Player_update [simp]: "canMove (Player_update k p) = canMove p"
  by (simp add: player_defs Let_def)



lemma bubble_other_fields [simp]:
  "questBoard (showChatBubble ob) = questBoard ob"
  "questBoard (hideChatBubble ob) = questBoard ob"
  "ooze_sprite_x (showChatBubble ob) = ooze_sprite_x ob"
  "ooze_sprite_x (hideChatBubble ob) = ooze_sprite_x ob"
  "ooze_sprite_y (showChatBubble ob) = ooze_sprite_y ob"
  "ooze_sprite_y (hideChatBubble ob) = ooze_sprite_y ob"
  "interactionDistance (showChatBubble ob) = interactionDistance ob"
  "interactionDistance (hideChatBubble ob) = interactionDistance ob"
  by (simp_all add: showChatBubble_def hideChatBubble_def Let_def)

lemma bubble_objects [simp]:
  "(chatBubbleImage (showChatBubble ob) = None) = (chatBubbleImage ob = None)"
  "(chatBubbleImage (hideChatBubble ob) = None) = (chatBubbleImage ob = None)"
  "(chatBubbleText (showChatBubble ob) = None) = (chatBubbleText ob = None)"
  "(chatBubbleText (hideChatBubble ob) = None) = (chatBubbleText ob = None)"
  by (simp_all add: showChatBubble_def hideChatBubble_def Let_def)

lemma bubble_flag:
  "chatBubbleVisible (showChatBubble ob) =
     (chatBubbleVisible ob \<or> chatBubbleImage ob \<noteq> None \<and> chatBubbleText ob \<noteq> None)"
  "chatBubbleVisible (hideChatBubble ob) =
     (chatBubbleVisible ob \<and> (chatBubbleImage ob = None \<or> chatBubbleText ob = None))"
  by (auto simp: showChatBubble_def hideChatBubble_def Let_def)


lemma onPlayerInteract_fields:
  "isPlayerNearOoze (onPlayerInteract g) = isPlayerNearOoze g"
  "backgroundManager (onPlayerInteract g) = backgroundManager g"
  "player (onPlayerInteract g) = disableMovement (player g)"
  by (simp_all add: onPlayerInteract_def initializeQuestBoard_def Let_def split: prod.splits)

lemma onPlayerInteract_ooze:
  "oozeObstacle (onPlayerInteract g) =
     (hideChatBubble (oozeObstacle g))\<lparr>questBoard :=
        (case questBoard (oozeObstacle g) of None \<Rightarrow> Some (length (panels g)) | Some a \<Rightarrow> Some a)\<rparr>"
  by (auto simp add: onPlayerInteract_def initializeQuestBoard_def Let_def
      split: prod.splits option.splits)

lemma onPlayerInteract_panels:
  "panels_wf g \<Longrightarrow>
   panels (onPlayerInteract g) =
     [panels g ! 0,
      showQuestBoard (Some ReenablePlayerMovement)
        (if length (panels g) = 1 then new_QuestBoard else panels g ! 1)]"
  apply (cases "panels g")
   apply (simp add: panels_wf_def)
  subgoal for q qs
    apply (cases qs)
     apply (auto simp add: panels_wf_def onPlayerInteract_def initializeQuestBoard_def
        at_panel_def Let_def split: prod.splits option.splits)
    done
  done


lemma pointerdown_ok_fields:
  "a < length (panels g) \<Longrightarrow>
   panels (pointerdown_ok a g) = (panels g)[a := hideQuestBoard (panels g ! a)]"
  "a < length (panels g) \<Longrightarrow>
   player (pointerdown_ok a g) =
     (case onCloseCallback (panels g ! a) of None \<Rightarrow> player g
      | Some cb \<Rightarrow> enableMovement (player g))"
  "oozeObstacle (pointerdown_ok a g) = oozeObstacle g"
  "isPlayerNearOoze (pointerdown_ok a g) = isPlayerNearOoze g"
  by (simp_all add: pointerdown_ok_def okButton_pointerdown_def Let_def fading_out_hideQuestBoard
      run_callback_def split: option.splits close_callback.splits)






lemma canMove_update: "canMove (player (update k cam g)) \<Longrightarrow> canMove (player g)"
  by (auto simp: update_def checkObstacleInteractions_def Let_def onPlayerInteract_fields
      disableMovement_def setVelocityX_def split: if_splits)

lemma enabling_step_is_press:
  "\<not> canMove (player g) \<Longrightarrow> canMove (player (step e g)) \<Longrightarrow> \<exists>a. e = PointerDownOK a"
  by (cases e) (auto simp: physics_step_def dest: canMove_update)


section \<open>The invariants hold in every state of a run\<close>

lemma panels_wf_onPlayerInteract: "panels_wf g \<Longrightarrow> panels_wf (onPlayerInteract g)"
  unfolding panels_wf_def[of "onPlayerInteract g"]
  by (simp add: onPlayerInteract_panels onPlayerInteract_ooze split: option.splits)
     (auto simp: panels_wf_def)

lemma panels_wf_update:
  assumes "panels_wf g"
  shows "panels_wf (update k cam g)"
proof -
  have same: "panels_wf g1"
    if "panels g1 = panels g" "questBoard (oozeObstacle g1) = questBoard (oozeObstacle g)" for g1
    using assms that by (simp add: panels_wf_def)
  show ?thesis
    unfolding update_def checkObstacleInteractions_def Let_def
    by (auto intro!: panels_wf_onPlayerInteract same)
qed

lemma panels_wf_pointerdown: "panels_wf g \<Longrightarrow> panels_wf (pointerdown_ok a g)"
  by (auto simp: pointerdown_ok_def panels_wf_def okButton_pointerdown_def hideQuestBoard_def
      Let_def nth_list_update)

lemma panels_wf_tweens:
  "panels_wf g \<Longrightarrow>
   panels_wf (g\<lparr>panels := at_panel a (tweens_update completed) (panels g)\<rparr>)"
  by (auto simp: panels_wf_def at_panel_def tweens_update_fields nth_list_update)

lemma panels_wf_physics: "panels_wf (g\<lparr>player := p\<rparr>) = panels_wf g"
  by (simp add: panels_wf_def)

lemma panels_wf_step: "panels_wf g \<Longrightarrow> panels_wf (step e g)"
  by (cases e)
     (simp_all add: panels_wf_update panels_wf_pointerdown panels_wf_tweens panels_wf_physics)

lemma bubble_wf_onPlayerInteract: "bubble_wf g \<Longrightarrow> bubble_wf (onPlayerInteract g)"
  by (simp add: bubble_wf_def onPlayerInteract_ooze onPlayerInteract_fields bubble_flag)

lemma bubble_wf_update:
  assumes "bubble_wf g"
  shows "bubble_wf (update k cam g)"
proof -
  have shown: "bubble_wf (g1\<lparr>isPlayerNearOoze := True,
                              oozeObstacle := showChatBubble (oozeObstacle g)\<rparr>)" for g1
    using assms by (simp add: bubble_wf_def)
  have hidden: "bubble_wf (g1\<lparr>isPlayerNearOoze := False,
                               oozeObstacle := hideChatBubble (oozeObstacle g)\<rparr>)" for g1
    using assms by (simp add: bubble_wf_def bubble_flag)
  have same: "bubble_wf g1"
    if "oozeObstacle g1 = oozeObstacle g" "isPlayerNearOoze g1 = isPlayerNearOoze g" for g1
    using assms that by (simp add: bubble_wf_def)
  show ?thesis
    unfolding update_def checkObstacleInteractions_def Let_def
    by (auto intro!: bubble_wf_onPlayerInteract shown hidden same)
qed

lemma bubble_wf_pointerdown: "bubble_wf g \<Longrightarrow> bubble_wf (pointerdown_ok a g)"
  by (simp add: bubble_wf_def pointerdown_ok_def split: prod.splits)

lemma bubble_wf_step:
  assumes "bubble_wf g"
  shows "bubble_wf (step e g)"
proof (cases e)
  case (Update k cam)
  with assms show ?thesis by (simp add: bubble_wf_update)
next
  case (PhysicsStep px py vx vy td)
  with assms show ?thesis by (simp add: bubble_wf_def)
next
  case (PointerDownOK a)
  with assms show ?thesis by (simp add: bubble_wf_pointerdown)
next
  case (TweensUpdate a completed)
  with assms show ?thesis by (simp add: bubble_wf_def)
qed

lemma moves_onPlayerInteract: "moves_only_when_closing (onPlayerInteract g)"
  by (simp add: moves_only_when_closing_def onPlayerInteract_fields disableMovement_def
      setVelocityX_def)

lemma moves_update:
  assumes "moves_only_when_closing g"
  shows "moves_only_when_closing (update k cam g)"
proof -
  have same: "moves_only_when_closing g1"
    if "panels g1 = panels g" "canMove (player g1) = canMove (player g)" for g1
    using assms that by (simp add: moves_only_when_closing_def)
  show ?thesis
    unfolding update_def checkObstacleInteractions_def Let_def
    by (auto intro!: moves_onPlayerInteract same)
qed

lemma moves_tweens:
  "moves_only_when_closing g \<Longrightarrow>
   moves_only_when_closing (g\<lparr>panels := at_panel a (tweens_update completed) (panels g)\<rparr>)"
  by (auto simp: moves_only_when_closing_def at_panel_def tweens_update_keeps_fading
      tweens_update_fields(3) dest!: set_update_subset_insert[THEN subsetD])

text \<open>
  A press on panel \<open>a\<close> starts the fade-out of that panel if it is open. Any other open
  panel is panel 1, so that \<open>a\<close> is panel 0, which stores no callback: the player is as
  before.
\<close>

lemma moves_pointerdown:
  assumes wf: "panels_wf g" and mv: "moves_only_when_closing g"
  shows "moves_only_when_closing (pointerdown_ok a g)"
proof (cases "a < length (panels g)")
  case False
  then show ?thesis using mv by (simp add: pointerdown_ok_def)
next
  case True
  let ?ps = "(panels g)[a := hideQuestBoard (panels g ! a)]"
  have "fading_out qb"
    if qb: "qb \<in> set ?ps" and vis: "isVisible qb"
      and can: "canMove (player (pointerdown_ok a g))" for qb
  proof -
    from qb obtain i where i: "i < length (panels g)" "qb = ?ps ! i"
      by (metis in_set_conv_nth length_list_update)
    show ?thesis
    proof (cases "i = a")
      case True
      with i vis show ?thesis by (simp add: fading_out_hideQuestBoard)
    next
      case False
      with i have qb_old: "qb = panels g ! i" by simp
      have "\<not> isVisible (panels g ! 0)" using wf by (simp add: panels_wf_def)
      with vis qb_old have "i \<noteq> 0" by (cases "i = 0") simp_all
      with wf i False \<open>a < length (panels g)\<close> have "a = 0" by (auto simp: panels_wf_def)
      with wf have "onCloseCallback (panels g ! a) = None" by (simp add: panels_wf_def)
      with can True have "canMove (player g)" by (simp add: pointerdown_ok_fields)
      with mv vis qb_old i show ?thesis by (auto simp: moves_only_when_closing_def)
    qed
  qed
  with True show ?thesis by (simp add: moves_only_when_closing_def pointerdown_ok_fields)
qed

lemma moves_step:
  assumes "panels_wf g" "moves_only_when_closing g"
  shows "moves_only_when_closing (step e g)"
proof (cases e)
  case (Update k cam)
  with assms show ?thesis by (simp add: moves_update)
next
  case (PhysicsStep px py vx vy td)
  with assms show ?thesis by (simp add: moves_only_when_closing_def physics_step_def)
next
  case (PointerDownOK a)
  with assms show ?thesis by (simp add: moves_pointerdown)
next
  case (TweensUpdate a completed)
  with assms show ?thesis by (simp add: moves_tweens)
qed

lemma scene_inv_create: "scene_inv create"
  by (simp add: scene_inv_def panels_wf_def bubble_wf_def moves_only_when_closing_def
      game_defs obstacle_defs panel_defs)

lemma scene_inv_step: "scene_inv g \<Longrightarrow> scene_inv (step e g)"
  by (simp add: scene_inv_def panels_wf_step bubble_wf_step moves_step)

lemma scene_inv_run: "scene_inv g \<Longrightarrow> scene_inv (run es g)"
  unfolding run_def by (induction es arbitrary: g) (simp_all add: scene_inv_step)

lemma scene_inv_reachable: "scene_inv (run es create)"
  by (simp add: scene_inv_run scene_inv_create)

lemma visible_panels_le_one:
  assumes "panels_wf g"
  shows "length (filter isVisible (panels g)) \<le> 1"
proof -
  from assms have "\<not> isVisible (panels g ! 0)" "length (panels g) = 1 \<or> length (panels g) = 2"
    by (auto simp: panels_wf_def)
  then show ?thesis
    by (cases "panels g"; cases "tl (panels g)") auto
qed


section \<open>Proximity and the chat bubble\<close>

text \<open>The distance of the specification is the distance of the complex plane.\<close>

lemma planar_euclidean_distance_complex:
  "planar_euclidean_distance (a, b) (c, d) = dist (Complex a b) (Complex c d)"
  by (simp add: planar_euclidean_distance_def dist_norm cmod_def)

lemma planar_euclidean_distance_same_height:
  "planar_euclidean_distance (a, c) (b, c) = \<bar>a - b\<bar>"
  by (simp add: planar_euclidean_distance_def)

lemma isPlayerNearby_dist:
  "isPlayerNearby (px, py) ob \<longleftrightarrow>
     planar_euclidean_distance (px, py) (ooze_getPosition ob) < interactionDistance ob"
  by (simp add: isPlayerNearby_def Distance_Between_def ooze_getPosition_def
      planar_euclidean_distance_def power2_eq_square Let_def)

text \<open>
  The call of \<open>hideChatBubble\<close> that ends \<open>createChatBubble\<close> finds the flag unset and
  changes nothing: when the scene has been created, the two objects of the bubble are
  visible although the flag is not set and the player is outside the radius.
\<close>

lemma bubble_objects_visible_after_create:
  "chatBubbleImage (oozeObstacle create) = Some (GameObject True)
   \<and> chatBubbleText (oozeObstacle create) = Some (GameObject True)
   \<and> \<not> chatBubbleVisible (oozeObstacle create)
   \<and> bubble_calls (oozeObstacle create) = [HideChatBubble]
   \<and> \<not> isPlayerNearby (getPosition (player create)) (oozeObstacle create)"
proof -
  have far: "\<not> sqrt 826900 < (100::real)"
    using sqrt_less_iff_squares[of 100 900 130] by simp
  show ?thesis by (simp add: eval_defs far)
qed



section \<open>The claims\<close>

subsection \<open>C1: closing the panel\<close>

text \<open>
  C1, as the code has it. A press of the OK button invokes the stored close-callback exactly
  once, if one is stored, and it does so inside the press handler, when the fade-out has
  just been started, not when it completes: the handler returns that one callback, leaves
  \<open>isVisible\<close> as it is and, on an open panel, adds the fade-out tween to the pending
  tweens. A step of the tween manager never touches the stored callback. The panel is
  marked invisible only by a step in which a fade-out tween completes, and the step in
  which the fade-out started by the press completes does mark it invisible.
\<close>

theorem okButton_invokes_callback_at_press:
  "snd (okButton_pointerdown qb) = (case onCloseCallback qb of Some cb \<Rightarrow> [cb] | None \<Rightarrow> [])
   \<and> isVisible (fst (okButton_pointerdown qb)) = isVisible qb
   \<and> (isVisible qb \<longrightarrow> tweens (fst (okButton_pointerdown qb)) = tweens qb @ [fade_out_tween])
   \<and> onCloseCallback (tweens_update completed qb) = onCloseCallback qb
   \<and> (isVisible qb \<and> \<not> isVisible (tweens_update completed qb) \<longrightarrow>
        (\<exists>i\<in>set completed. i < length (tweens qb)
            \<and> onComplete (tweens qb ! i) = Some HideComplete))
   \<and> (isVisible qb \<and> length (tweens qb) \<in> set completed \<longrightarrow>
        \<not> isVisible (tweens_update completed (fst (okButton_pointerdown qb))))"
proof -
  have only_fade_out: "\<exists>i\<in>set completed. i < length (tweens qb)
            \<and> onComplete (tweens qb ! i) = Some HideComplete"
    if "isVisible qb" "\<not> isVisible (tweens_update completed qb)"
    using that by (simp add: tweens_update_fields(3))
  have fade_out_hides: "\<not> isVisible (tweens_update completed (hideQuestBoard qb))"
    if vis: "isVisible qb" and idx: "length (tweens qb) \<in> set completed"
  proof -
    have "tweens (hideQuestBoard qb) ! length (tweens qb) = fade_out_tween"
      using vis by (simp add: tweens_hideQuestBoard)
    moreover have "length (tweens qb) < length (tweens (hideQuestBoard qb))"
      using vis by (simp add: tweens_hideQuestBoard)
    moreover have "onComplete fade_out_tween = Some HideComplete"
      by (simp add: fade_out_tween_def)
    ultimately show ?thesis
      using idx unfolding tweens_update_fields(3) by metis
  qed
  show ?thesis
    using only_fade_out fade_out_hides
    by (simp add: okButton_pointerdown_fields fading_out_hideQuestBoard tweens_hideQuestBoard
        tweens_update_fields(2))
qed

text \<open>
  The panel that was just opened with the callback of the obstacle: the press invokes the
  callback; the panel is still marked visible after a step in which only the fade-in
  completes, and no longer after a step in which the fade-out completes.
\<close>

theorem okButton_invokes_callback_at_press_witness:
  "isVisible opened_panel
   \<and> snd (okButton_pointerdown opened_panel) = [ReenablePlayerMovement]
   \<and> tweens (fst (okButton_pointerdown opened_panel)) = [fade_in_tween, fade_out_tween]
   \<and> isVisible (tweens_update [0] (fst (okButton_pointerdown opened_panel)))
   \<and> length (tweens opened_panel) = 1
   \<and> \<not> isVisible (tweens_update [1] (fst (okButton_pointerdown opened_panel)))"
  using okButton_invokes_callback_at_press[of opened_panel "[1]"]
  by (simp add: opened_panel_fields okButton_pointerdown_fields tweens_hideQuestBoard
      fading_out_hideQuestBoard tweens_update_fields(3) fade_in_tween_def)

text \<open>
  C1 as written says that the callback is invoked only when the fade-out has completed and
  never on the press itself. On the opened panel the press handler has invoked the callback
  when it returns, while the panel is still marked visible and its fade-out tween has just
  been added to the pending tweens.
\<close>

theorem callback_before_fade_out_counterexample:
  "onCloseCallback opened_panel = Some ReenablePlayerMovement
   \<and> tweens opened_panel = [fade_in_tween]
   \<and> snd (okButton_pointerdown opened_panel) = [ReenablePlayerMovement]
   \<and> isVisible (fst (okButton_pointerdown opened_panel))
   \<and> tweens (fst (okButton_pointerdown opened_panel)) = [fade_in_tween, fade_out_tween]
   \<and> onComplete fade_out_tween = Some HideComplete"
  by (simp add: opened_panel_fields okButton_pointerdown_fields tweens_hideQuestBoard
      fading_out_hideQuestBoard fade_out_tween_def)


subsection \<open>C2: an open panel and the movement of the player\<close>

text \<open>
  C2, as the code has it. In every state that a run of the scene reaches, at most one panel
  is open; whenever a panel is open and is not fading out, the movement-enabled flag of the
  player is false; an event that turns the flag from false to true is a press of the OK
  button of a panel; and the press of the OK button of a panel that stores a callback sets
  the flag at once and leaves the visibility flag of the panel as it is.
\<close>

theorem panel_open_blocks_movement:
  "length (filter isVisible (panels (run es create))) \<le> 1
   \<and> (\<forall>qb\<in>set (panels (run es create)).
         isVisible qb \<and> \<not> fading_out qb \<longrightarrow> \<not> canMove (player (run es create)))
   \<and> (\<not> canMove (player (run es create)) \<and> canMove (player (step e (run es create)))
        \<longrightarrow> (\<exists>a. e = PointerDownOK a))
   \<and> (a < length (panels (run es create))
        \<and> onCloseCallback (panels (run es create) ! a) \<noteq> None \<longrightarrow>
        canMove (player (step (PointerDownOK a) (run es create)))
        \<and> isVisible (panels (step (PointerDownOK a) (run es create)) ! a)
            = isVisible (panels (run es create) ! a))"
proof -
  have inv: "scene_inv (run es create)" by (rule scene_inv_reachable)
  then have "length (filter isVisible (panels (run es create))) \<le> 1"
    using visible_panels_le_one[of "run es create"] by (simp add: scene_inv_def)
  moreover from inv have "\<forall>qb\<in>set (panels (run es create)).
         isVisible qb \<and> \<not> fading_out qb \<longrightarrow> \<not> canMove (player (run es create))"
    by (auto simp: scene_inv_def moves_only_when_closing_def)
  moreover have "canMove (player (step (PointerDownOK a) g))
        \<and> isVisible (panels (step (PointerDownOK a) g) ! a) = isVisible (panels g ! a)"
    if "a < length (panels g)" "onCloseCallback (panels g ! a) \<noteq> None" for g
    using that
    by (auto simp: pointerdown_ok_fields fading_out_hideQuestBoard enableMovement_def)
  ultimately show ?thesis using enabling_step_is_press by blast
qed

text \<open>
  After the interaction the opened panel is in the scene, open and not fading out, and the
  player may not move; the press of its OK button lets the player move again, the panel
  still marked visible.
\<close>

theorem panel_open_blocks_movement_witness:
  "opened_panel \<in> set (panels (run opening_trace create))
   \<and> isVisible opened_panel \<and> \<not> fading_out opened_panel
   \<and> panels (run opening_trace create) ! 1 = opened_panel
   \<and> onCloseCallback opened_panel = Some ReenablePlayerMovement
   \<and> \<not> canMove (player (run opening_trace create))
   \<and> canMove (player (step (PointerDownOK 1) (run opening_trace create)))
   \<and> isVisible (panels (step (PointerDownOK 1) (run opening_trace create)) ! 1)"
  using panel_open_blocks_movement[of opening_trace "PointerDownOK 1" 1]
  by (simp add: eval_defs opening_trace_def walk_to_ooze_def interact_keys_def opened_panel_def)

text \<open>
  C2 as written says that the flag is false whenever the visibility flag of the panel is
  true. Right after the press of the OK button the panel is still marked visible, its
  fade-out pending, and the player may already move.
\<close>

theorem moving_while_panel_open_counterexample:
  "isVisible (panels (run closing_trace create) ! 1)
   \<and> canMove (player (run closing_trace create))"
  by (simp add: eval_defs closing_trace_def walk_to_ooze_def interact_keys_def)


subsection \<open>C3: update while movement is disabled\<close>

text \<open>
  C3, as the code has it. In a frame in which the movement-enabled flag is false, \<open>update\<close>
  sets the horizontal velocity to zero whatever the input is and leaves the vertical
  velocity unchanged, so that gravity and a jump under way go on. The input is not read at
  all: the frame zeroes the horizontal velocity, rounds the position and does nothing
  else, so a held jump key starts no jump.
\<close>

theorem disabled_update_effect:
  "\<not> canMove p \<Longrightarrow>
     velocityX (Player_update k p) = 0
     \<and> velocityY (Player_update k p) = velocityY p
     \<and> Player_update k p = preventPixelBlur (setVelocityX 0 p)"
  by (simp add: player_defs)

text \<open>The disabled player on the ground, with left and jump held.\<close>

theorem disabled_update_effect_witness:
  "\<not> canMove (disableMovement grounded_player)
   \<and> velocityX (Player_update (jump_keys\<lparr>left_isDown := True\<rparr>)
        (disableMovement grounded_player)) = 0
   \<and> velocityY (Player_update (jump_keys\<lparr>left_isDown := True\<rparr>)
        (disableMovement grounded_player)) = 0"
  using disabled_update_effect
    [of "disableMovement grounded_player" "jump_keys\<lparr>left_isDown := True\<rparr>"]
  by (simp add: eval_defs grounded_player_def jump_keys_def)

text \<open>
  C3 as written says that a held jump input still takes effect while movement is disabled.
  For the player on the ground with the jump key held, \<open>update\<close> sets the jump velocity
  when movement is enabled; when it is disabled the vertical velocity stays 0 and no dust
  is spawned.
\<close>

theorem disabled_jump_counterexample:
  "\<not> canMove (disableMovement grounded_player)
   \<and> isJumping jump_keys
   \<and> touching_down (disableMovement grounded_player)
   \<and> velocityY (Player_update jump_keys grounded_player) = JUMP_VELOCITY
   \<and> velocityY (Player_update jump_keys (disableMovement grounded_player)) = 0
   \<and> velocityY (Player_update jump_keys (disableMovement grounded_player)) \<noteq> JUMP_VELOCITY
   \<and> dust (Player_update jump_keys (disableMovement grounded_player)) = []"
  by (simp add: eval_defs grounded_player_def jump_keys_def)


subsection \<open>C4: the proximity predicate and the bubble at the radius\<close>

text \<open>
  C4 says that the proximity predicate holds if and only if the planar Euclidean distance
  between the player and the obstacle is strictly less than the interaction radius, and
  that at a distance equal to the radius the affordance is hidden. The predicate of the
  code is that comparison, for every position. The affordance is not hidden at the radius:
  when the scene has been created, the player has been put at exactly 100 units, the radius,
  from the obstacle and a frame has passed, the predicate is false, the tracked flag and the
  bubble's flag are unset, and the image and the text of the bubble are visible. They have
  been visible since \<open>createChatBubble\<close>, whose closing call of \<open>hideChatBubble\<close> finds
  the bubble's flag unset and hides nothing.
\<close>

theorem bubble_visible_at_radius:
  "(isPlayerNearby (px, py) ob \<longleftrightarrow>
      planar_euclidean_distance (px, py) (ooze_getPosition ob) < interactionDistance ob)
   \<and> planar_euclidean_distance
        (getPosition (player (run [stand_at_radius, Update no_keys 0] create)))
        (ooze_getPosition (oozeObstacle (run [stand_at_radius, Update no_keys 0] create)))
       = interactionDistance (oozeObstacle (run [stand_at_radius, Update no_keys 0] create))
   \<and> \<not> isPlayerNearby (getPosition (player (run [stand_at_radius, Update no_keys 0] create)))
          (oozeObstacle (run [stand_at_radius, Update no_keys 0] create))
   \<and> \<not> isPlayerNearOoze (run [stand_at_radius, Update no_keys 0] create)
   \<and> \<not> chatBubbleVisible (oozeObstacle (run [stand_at_radius, Update no_keys 0] create))
   \<and> chatBubbleImage (oozeObstacle (run [stand_at_radius, Update no_keys 0] create))
       = Some (GameObject True)
   \<and> chatBubbleText (oozeObstacle (run [stand_at_radius, Update no_keys 0] create))
       = Some (GameObject True)
   \<and> bubble_calls (oozeObstacle (run [stand_at_radius, Update no_keys 0] create))
       = [HideChatBubble]"
proof -
  have "isPlayerNearby (px, py) ob \<longleftrightarrow>
      planar_euclidean_distance (px, py) (ooze_getPosition ob) < interactionDistance ob"
    by (rule isPlayerNearby_dist)
  then show ?thesis
    by (simp add: eval_defs stand_at_radius_def planar_euclidean_distance_same_height)
qed


subsection \<open>C5: calls of show and hide\<close>





subsection \<open>C6: when the panel is constructed\<close>

text \<open>
  C6 says that no panel exists before the first interaction and that the interaction
  handler constructs it. In the code, \<open>create\<close> already leaves one constructed panel in
  the scene, built by \<open>setupObstacle\<close> during the construction of the obstacle, while the
  obstacle refers to none; it is still the only one after a frame without interaction.
  The first interaction constructs a second panel, the one the obstacle then refers to.
\<close>

theorem quest_board_built_at_construction:
  "length (panels create) = 1
   \<and> questBoard (oozeObstacle create) = None
   \<and> length (panels (run approach_trace create)) = 1
   \<and> questBoard (oozeObstacle (run approach_trace create)) = None
   \<and> length (panels (run opening_trace create)) = 2
   \<and> questBoard (oozeObstacle (run opening_trace create)) = Some 1"
  by (simp add: eval_defs approach_trace_def opening_trace_def walk_to_ooze_def interact_keys_def)


subsection \<open>C7: opening an open panel\<close>

text \<open>
  C7: for every callback argument, a second \<open>showQuestBoard\<close> after a first one, and any
  \<open>showQuestBoard\<close> on a panel that is open, returns the panel unchanged: container,
  visibility flag, pending tweens and stored callback are what they were.
\<close>

theorem showQuestBoard_idempotent:
  "showQuestBoard cb2 (showQuestBoard cb1 qb) = showQuestBoard cb1 qb
   \<and> (isVisible qb \<longrightarrow> showQuestBoard cb2 qb = qb)"
  by (simp add: showQuestBoard_def)

text \<open>
  Opening the opened panel again, without a callback: the stored callback and the single
  fade-in tween stay.
\<close>

theorem showQuestBoard_idempotent_witness:
  "isVisible opened_panel
   \<and> showQuestBoard None opened_panel = opened_panel
   \<and> onCloseCallback (showQuestBoard None opened_panel) = Some ReenablePlayerMovement
   \<and> tweens (showQuestBoard None opened_panel) = [fade_in_tween]"
  using showQuestBoard_idempotent[of None None opened_panel]
  by (simp add: opened_panel_def showQuestBoard_def new_QuestBoard_def)


subsection \<open>C8: the parallax pass\<close>

text \<open>
  C8: one pass of \<open>updateParallax\<close> sets the offset of every camera-driven layer to the
  camera scroll times that layer's coefficient (the layer with coefficient 0.3 gets 30 at
  scroll 100), while the back-most layer adds its fixed constant to its previous offset,
  whatever the camera scroll is.
\<close>

theorem updateParallax_offsets:
  "skyGlow (updateParallax cam bg) = cam * SKY_GLOW
   \<and> clouds (updateParallax cam bg) = cam * CLOUDS
   \<and> midgroundRocks (updateParallax cam bg) = cam * MIDGROUND_ROCKS
   \<and> foregroundRocks (updateParallax cam bg) = cam * FOREGROUND_ROCKS
   \<and> groundLayer (updateParallax cam bg) = cam * GROUND_LAYER
   \<and> FOREGROUND_ROCKS = 3 / 10
   \<and> foregroundRocks (updateParallax 100 bg) = 30
   \<and> backSky (updateParallax cam bg) = backSky bg + BACK_SKY
   \<and> backSky (updateParallax cam bg) = backSky (updateParallax cam' bg)"
  by (simp add: updateParallax_def FOREGROUND_ROCKS_def)


subsection \<open>C9: the direction query\<close>

text \<open>
  C9: the direction query only returns -1, 0 or 1, and returns -1 when left and right are
  both held.
\<close>

theorem getHorizontalDirection_range_left_first:
  "getHorizontalDirection k \<in> {- 1, 0, 1}
   \<and> (isMovingLeft k \<and> isMovingRight k \<longrightarrow> getHorizontalDirection k = - 1)"
  by (simp add: getHorizontalDirection_def)

text \<open>The left-priority rule at the keyboard that holds both arrow keys.\<close>

theorem getHorizontalDirection_both_held_witness:
  "isMovingLeft (no_keys\<lparr>left_isDown := True, right_isDown := True\<rparr>)
   \<and> isMovingRight (no_keys\<lparr>left_isDown := True, right_isDown := True\<rparr>)
   \<and> getHorizontalDirection (no_keys\<lparr>left_isDown := True, right_isDown := True\<rparr>) = - 1"
  using getHorizontalDirection_range_left_first
    [of "no_keys\<lparr>left_isDown := True, right_isDown := True\<rparr>"]
  by (simp add: isMovingLeft_def isMovingRight_def no_keys_def)


subsection \<open>C10: enabling movement again\<close>

text \<open>
  C10: after \<open>disableMovement\<close> followed by \<open>enableMovement\<close>, the next \<open>update\<close> sets
  the horizontal velocity from the input direction and the walk or run speed, and is the
  update of a player whose flag is set and who was never stopped.
\<close>

theorem enable_after_disable_restores_control:
  "velocityX (Player_update k (enableMovement (disableMovement p)))
     = of_int (getHorizontalDirection k) * (if isRunning k then RUN_SPEED else WALK_SPEED)
   \<and> Player_update k (enableMovement (disableMovement p)) = Player_update k (p\<lparr>canMove := True\<rparr>)"
  by (simp add: player_defs Let_def)

end
